theory Spec2Isabelle
  imports Complex_Main
begin

section \<open>Numeric and tabular model\<close>

text \<open>
  The program is \<^verbatim>\<open>src/app.py\<close>. Its numbers are IEEE doubles held in numpy arrays and
  pandas columns; here they are idealised as exact reals, so rounding, infinities and
  NaN inputs are outside the model. The one NaN that the program produces by itself
  is the missing-value marker that a left join writes where the right frame has no row
  for an index value: a \<open>cell\<close> is \<open>None\<close> there, and the arithmetic, \<^verbatim>\<open>np.clip\<close>,
  \<^verbatim>\<open>pd.cut\<close> and \<^verbatim>\<open>Series.map\<close> propagate it as pandas does.

  A timestamp is a naive wall-clock instant, counted in microseconds (the resolution
  of \<^verbatim>\<open>datetime\<close>) from 1970-01-01 00:00:00.
\<close>

type_synonym timestamp = int

type_synonym cell = "real option"

text \<open>A two-column frame: \<^verbatim>\<open>datetime\<close> and one value column, in row order.\<close>

type_synonym series = "(timestamp \<times> real) list"

text \<open>
  The dictionary that \<^verbatim>\<open>generate_weather_data\<close> returns and \<^verbatim>\<open>calculate_ssi\<close>
  reads: five frames under fixed keys, in insertion order.
\<close>

record weather_data =
  temperature :: series
  precipitation :: series
  wind :: series
  sunshine :: series
  cloudiness :: series

record indexed =
  datetime :: timestamp

record merged_row = indexed +
  temperature_c :: real
  precipitation_mm :: cell
  wind_speed_ms :: cell
  sunshine_minutes :: cell
  cloud_cover_oktas :: cell

record score_row = indexed +
  temp_score :: real
  precip_score :: cell
  wind_score :: cell
  sun_score :: cell
  cloud_score :: cell
  SSI :: cell
  category :: "string option"
  color :: "string option"

section \<open>WeatherAnalyzer.calculate\_ssi\<close>

subsection \<open>Merging the five frames\<close>

text \<open>
  \<^verbatim>\<open>merged.join(df.set_index('datetime'))\<close> is a left join on the index: every left
  row is kept, in order; it is paired with each right row of the same index value, in
  the right frame's order, and with a missing value when there is none.
\<close>

definition matches :: "timestamp \<Rightarrow> series \<Rightarrow> cell list" where
  "matches k df =
     (case filter (\<lambda>(k', v). k' = k) df of
        [] \<Rightarrow> [None]
      | ms \<Rightarrow> map (\<lambda>(k', v). Some v) ms)"

text \<open>
  The loop joins precipitation, wind, sunshine and cloudiness onto the temperature
  frame, in the dictionary's order.
\<close>

definition merge_frames :: "weather_data \<Rightarrow> merged_row list" where
  "merge_frames wd =
     [\<lparr>datetime = k, temperature_c = t, precipitation_mm = p, wind_speed_ms = w,
        sunshine_minutes = s, cloud_cover_oktas = c\<rparr>.
        (k, t) \<leftarrow> temperature wd,
        p \<leftarrow> matches k (precipitation wd),
        w \<leftarrow> matches k (wind wd),
        s \<leftarrow> matches k (sunshine wd),
        c \<leftarrow> matches k (cloudiness wd)]"

subsection \<open>numpy and pandas primitives\<close>

definition np_where :: "bool \<Rightarrow> 'a \<Rightarrow> 'a \<Rightarrow> 'a" where
  "np_where c a b = (if c then a else b)"

text \<open>\<^verbatim>\<open>np.clip(a, a_min, a_max)\<close> is \<^verbatim>\<open>minimum(a_max, maximum(a, a_min))\<close>.\<close>

definition np_clip :: "real \<Rightarrow> real \<Rightarrow> real \<Rightarrow> real" where
  "np_clip a a_min a_max = min a_max (max a a_min)"

definition nan_add :: "cell \<Rightarrow> cell \<Rightarrow> cell" where
  "nan_add a b = (case a of None \<Rightarrow> None | Some x \<Rightarrow> map_option (\<lambda>y. x + y) b)"

definition nan_mul :: "cell \<Rightarrow> real \<Rightarrow> cell" where
  "nan_mul a w = map_option (\<lambda>x. x * w) a"

text \<open>
  \<^verbatim>\<open>bins.searchsorted(x, side='left')\<close> on an increasing array: the number of bin edges
  strictly below \<open>x\<close>.
\<close>

definition searchsorted_left :: "real list \<Rightarrow> real \<Rightarrow> nat" where
  "searchsorted_left bins x = length (takeWhile (\<lambda>b. b < x) bins)"

text \<open>
  \<^verbatim>\<open>pd.cut(x, bins, labels)\<close> with its defaults \<^verbatim>\<open>right=True\<close> and
  \<^verbatim>\<open>include_lowest=False\<close>: the position \<open>i\<close> of \<open>x\<close> among the edges selects label
  \<open>i - 1\<close>; a value at position \<open>0\<close> (not above the first edge) or \<open>length bins\<close>
  (above the last edge), and a missing value, get no label.
\<close>

definition pd_cut :: "cell \<Rightarrow> real list \<Rightarrow> 'a list \<Rightarrow> 'a option" where
  "pd_cut x bins labels =
     (case x of
        None \<Rightarrow> None
      | Some v \<Rightarrow>
          (let i = searchsorted_left bins v
           in if i = 0 \<or> i = length bins then None else Some (labels ! (i - 1))))"

subsection \<open>The scores of one merged row\<close>

text \<open>
  Every column expression of \<^verbatim>\<open>calculate_ssi\<close> acts elementwise, so a row of the
  result is a function of the merged row at the same position. The weights dictionary
  is iterated in insertion order and Python's \<^verbatim>\<open>sum\<close> starts from \<open>0\<close>.
\<close>

text \<open>
  The values of the \<^verbatim>\<open>weights\<close> dictionary, in the order of its keys \<^verbatim>\<open>temp_score\<close>,
  \<^verbatim>\<open>precip_score\<close>, \<^verbatim>\<open>wind_score\<close>, \<^verbatim>\<open>sun_score\<close>, \<^verbatim>\<open>cloud_score\<close>.
\<close>

definition weights :: "real list" where
  "weights = [0.15, 0.35, 0.30, 0.10, 0.10]"

definition weighted_sum :: "(cell \<times> real) list \<Rightarrow> cell" where
  "weighted_sum cols = foldl nan_add (Some 0) (map (\<lambda>(c, w). nan_mul c w) cols)"

definition color_of :: "string \<rightharpoonup> string" where
  "color_of = [''Poor'' \<mapsto> ''#FF4444'', ''Moderate'' \<mapsto> ''#FFA500'', ''Good'' \<mapsto> ''#44FF44'']"

definition scores_of :: "merged_row \<Rightarrow> score_row" where
  "scores_of m =
     (let temp = temperature_c m;
          temp_score' =
            np_where (temp \<ge> 15 \<and> temp \<le> 25) 100
              (np_where (temp \<ge> 10 \<and> temp \<le> 30) 75
                (np_where (temp \<ge> 5 \<and> temp \<le> 35) 50 25));
          precip = precipitation_mm m;
          precip_score' = map_option (\<lambda>p. np_clip (100 - p * 10) 0 100) precip;
          wind' = wind_speed_ms m;
          wind_score' = map_option (\<lambda>w. np_clip (100 - (w - 5) * 6.67) 0 100) wind';
          sun = sunshine_minutes m;
          sun_score' = map_option (\<lambda>s. 25 + (s / 60) * 75) sun;
          cloud = map_option (\<lambda>c. np_clip c 0 8) (cloud_cover_oktas m);
          cloud_score' = map_option (\<lambda>c. 100 - (c / 8) * 75) cloud;
          SSI' = weighted_sum
                   (zip [Some temp_score', precip_score', wind_score', sun_score', cloud_score']
                      weights);
          category' = pd_cut SSI' [0, 40, 70, 100] [''Poor'', ''Moderate'', ''Good''];
          color' = Option.bind category' color_of
      in \<lparr>datetime = datetime m, temp_score = temp_score', precip_score = precip_score',
           wind_score = wind_score', sun_score = sun_score', cloud_score = cloud_score',
           SSI = SSI', category = category', color = color'\<rparr>)"

definition calculate_ssi :: "weather_data \<Rightarrow> score_row list" where
  "calculate_ssi wd = map scores_of (merge_frames wd)"

section \<open>DWDDataFetcher\<close>

text \<open>
  Exceptions that the library calls of \<^verbatim>\<open>DWDDataFetcher\<close> can raise: \<^verbatim>\<open>idxmin\<close> of an
  empty series (\<open>ValueError\<close>), \<^verbatim>\<open>datetime\<close> arithmetic that leaves the years 1 to 9999
  (\<open>OverflowError\<close>), and a pandas timestamp outside the signed 64-bit nanosecond range
  (\<open>OutOfBoundsDatetime\<close>).
\<close>

datatype py_error = ValueError | OverflowError | OutOfBoundsDatetime

subsection \<open>The station catalog and find\_nearest\_station\<close>

record station =
  station_id :: string
  name :: string
  lat :: real
  lon :: real
  height :: int

record station_info = station +
  distance_km :: real

text \<open>
  The rows of \<^verbatim>\<open>get_default_stations\<close>, in order; their labels are the positions
  \<open>0, 1, \<dots>\<close> of the default index. The two names with a non-ASCII letter are
  spelled with the UTF-8 bytes that the source file holds.
\<close>

definition get_default_stations :: "station list" where
  "get_default_stations =
     [\<lparr>station_id = ''00954'',
        name = ''Hamburg-Fuhlsb'' @ [CHR 0xE2, CHR 0x88, CHR 0x9A, CHR 0xC2, CHR 0xBA] @ ''ttel'',
        lat = 53.6332, lon = 9.9881, height = 11\<rparr>,
      \<lparr>station_id = ''01975'', name = ''Hamburg-Neuwiedenthal'',
        lat = 53.4777, lon = 9.8966, height = 3\<rparr>,
      \<lparr>station_id = ''05516'', name = ''Schleswig'',
        lat = 54.5276, lon = 9.5490, height = 43\<rparr>,
      \<lparr>station_id = ''00691'', name = ''Bremen'',
        lat = 53.0475, lon = 8.7981, height = 5\<rparr>,
      \<lparr>station_id = ''00891'', name = ''Cuxhaven'',
        lat = 53.8706, lon = 8.7211, height = 5\<rparr>,
      \<lparr>station_id = ''03032'',
        name = ''L'' @ [CHR 0xE2, CHR 0x88, CHR 0x9A, CHR 0xC2, CHR 0xBA] @ ''beck'',
        lat = 53.8072, lon = 10.7083, height = 15\<rparr>,
      \<lparr>station_id = ''01757'', name = ''Kiel-Holtenau'',
        lat = 54.3774, lon = 10.1424, height = 27\<rparr>]"

text \<open>
  \<^verbatim>\<open>Series.idxmin\<close>: a left-to-right scan that keeps the position and value of the
  smallest element seen so far and replaces them only by a strictly smaller one, so the
  first minimum wins. On an empty series pandas raises \<open>ValueError\<close>.
\<close>

fun scan_min :: "real list \<Rightarrow> nat \<Rightarrow> nat \<times> real \<Rightarrow> nat \<times> real" where
  "scan_min [] i best = best"
| "scan_min (x # xs) i (bi, bv) =
     scan_min xs (Suc i) (if x < bv then (i, x) else (bi, bv))"

fun idxmin :: "real list \<Rightarrow> py_error + nat" where
  "idxmin [] = Inl ValueError"
| "idxmin (x # xs) = Inr (fst (scan_min xs 1 (0, x)))"

definition find_nearest_station ::
  "station list \<Rightarrow> real \<Rightarrow> real \<Rightarrow> py_error + station_info option" where
  "find_nearest_station stations_df = (\<lambda>lat lon.
      if stations_df = [] then Inr None
      else
        (let distances =
               map (\<lambda>s. sqrt ((station.lat s - lat)\<^sup>2 + (station.lon s - lon)\<^sup>2)) stations_df
         in case idxmin distances of
              Inl e \<Rightarrow> Inl e
            | Inr nearest_idx \<Rightarrow>
                Inr (Some (station.extend (stations_df ! nearest_idx)
                             \<lparr>distance_km = distances ! nearest_idx * 111\<rparr>))))"

subsection \<open>generate\_weather\_data\<close>

text \<open>One hour in microseconds.\<close>

definition HOUR :: int where
  "HOUR = 3600000000"

text \<open>
  \<^verbatim>\<open>datetime.min\<close> is 0001-01-01 00:00:00 and \<^verbatim>\<open>datetime.max\<close> is
  9999-12-31 23:59:59.999999; arithmetic that leaves this range raises
  \<open>OverflowError\<close>.
\<close>

definition datetime_ok :: "timestamp \<Rightarrow> bool" where
  "datetime_ok t \<longleftrightarrow> -62135596800000000 \<le> t \<and> t \<le> 253402300799999999"

text \<open>
  \<^verbatim>\<open>pd.date_range\<close> holds its bounds as signed 64-bit counts of nanoseconds; a bound
  that does not fit raises \<open>OutOfBoundsDatetime\<close>.
\<close>

definition timestamp_ok :: "timestamp \<Rightarrow> bool" where
  "timestamp_ok t \<longleftrightarrow> - (2 ^ 63) < t * 1000 \<and> t * 1000 < 2 ^ 63"

text \<open>
  \<^verbatim>\<open>pd.date_range(start, end, freq='H')\<close>: the instants \<open>start + k\<close> hours, \<open>k = 0, 1, \<dots>\<close>,
  that do not exceed \<open>end\<close>.
\<close>

definition pd_date_range :: "timestamp \<Rightarrow> timestamp \<Rightarrow> timestamp list" where
  "pd_date_range start_date end_date =
     map (\<lambda>k. start_date + int k * HOUR) [0..<nat ((end_date - start_date) div HOUR + 1)]"

text \<open>The \<^verbatim>\<open>hour\<close> attribute of a timestamp.\<close>

definition hour :: "timestamp \<Rightarrow> int" where
  "hour d = (d div HOUR) mod 24"

text \<open>
  The generator draws from numpy's global random state. The draws are taken as given:
  each field stands for one call that returns an array of \<open>n_hours\<close> values, of which
  the field yields the value at a position. The fields follow the order of the calls.
\<close>

record random_draws =
  temperature_noise :: "nat \<Rightarrow> real"
  rain_uniform :: "nat \<Rightarrow> real"
  rain_amount :: "nat \<Rightarrow> real"
  wind_noise :: "nat \<Rightarrow> real"
  cloud_factor :: "nat \<Rightarrow> real"
  cloud_noise :: "nat \<Rightarrow> real"

text \<open>A frame with the column \<^verbatim>\<open>datetime\<close> and a value column computed by position.\<close>

definition frame :: "timestamp list \<Rightarrow> (nat \<Rightarrow> real) \<Rightarrow> series" where
  "frame date_range col = map (\<lambda>i. (date_range ! i, col i)) [0..<length date_range]"

text \<open>
  \<open>now\<close> is the value of \<^verbatim>\<open>datetime.now()\<close>, read once; \<open>rnd\<close> are the random draws.
\<close>

definition generate_weather_data ::
  "string \<Rightarrow> int \<Rightarrow> timestamp \<Rightarrow> random_draws \<Rightarrow> py_error + weather_data" where
  "generate_weather_data = (\<lambda>station_id hours now rnd.
      let end_date = now;
          start_date = end_date - hours * HOUR
      in if \<not> datetime_ok start_date then Inl OverflowError
         else if \<not> (timestamp_ok start_date \<and> timestamp_ok end_date) then Inl OutOfBoundsDatetime
         else
           (let date_range = pd_date_range start_date end_date;
                n_hours = length date_range;
                hour_of_day = (\<lambda>i. real_of_int (hour (date_range ! i)));
                day_progress = (\<lambda>i. real i / real n_hours);
                base_temp = (\<lambda>i. 12 + 8 * sin (2 * pi * day_progress i));
                daily_cycle = (\<lambda>i. 5 * sin (2 * pi * (hour_of_day i - 6) / 24));
                rain_events = (\<lambda>i. rain_uniform rnd i < 0.2);
                daylight = (\<lambda>i. hour_of_day i \<ge> 6 \<and> hour_of_day i \<le> 20)
            in Inr
              \<lparr>temperature = frame date_range
                 (\<lambda>i. base_temp i + daily_cycle i + temperature_noise rnd i),
               precipitation = frame date_range
                 (\<lambda>i. np_where (rain_events i) (rain_amount rnd i) 0),
               wind = frame date_range
                 (\<lambda>i. 8 + 4 * sin (2 * pi * day_progress i * 2) + wind_noise rnd i),
               sunshine = frame date_range
                 (\<lambda>i. np_where (daylight i) (60 * (1 - cloud_factor rnd i)) 0),
               cloudiness = frame date_range
                 (\<lambda>i. 4 + 3 * sin (2 * pi * day_progress i * 1.5) + cloud_noise rnd i)\<rparr>))"

section \<open>The formulas of the specification\<close>

text \<open>
  These definitions follow the wording of the specification, not the code; the theorems
  below compare them with the columns that \<open>calculate_ssi\<close> computes.
\<close>

definition spec_clip :: "real \<Rightarrow> real \<Rightarrow> real \<Rightarrow> real" where
  "spec_clip x lo hi = (if x < lo then lo else if hi < x then hi else x)"

definition spec_temp_score :: "real \<Rightarrow> real" where
  "spec_temp_score T =
     (if 15 \<le> T \<and> T \<le> 25 then 100
      else if 10 \<le> T \<and> T \<le> 30 then 75
      else if 5 \<le> T \<and> T \<le> 35 then 50
      else 25)"

definition spec_precip_score :: "real \<Rightarrow> real" where
  "spec_precip_score P = spec_clip (100 - 10 * P) 0 100"

definition spec_wind_score :: "real \<Rightarrow> real" where
  "spec_wind_score W = spec_clip (100 - 6.67 * (W - 5)) 0 100"

definition spec_sun_score :: "real \<Rightarrow> real" where
  "spec_sun_score S = 25 + 75 * (S / 60)"

definition spec_cloud_score :: "real \<Rightarrow> real" where
  "spec_cloud_score C = 100 - 75 * (spec_clip C 0 8 / 8)"

definition spec_SSI :: "real \<Rightarrow> real \<Rightarrow> real \<Rightarrow> real \<Rightarrow> real \<Rightarrow> real" where
  "spec_SSI t p w s c = 0.15 * t + 0.35 * p + 0.30 * w + 0.10 * s + 0.10 * c"

text \<open>
  The bucketing that the code performs, written as comparisons: the lowest bucket is
  open at \<open>0\<close>, and a value outside \<open>(0, 100]\<close> has no category.
\<close>

definition bucket :: "real \<Rightarrow> string option" where
  "bucket v =
     (if 0 < v \<and> v \<le> 40 then Some ''Poor''
      else if 40 < v \<and> v \<le> 70 then Some ''Moderate''
      else if 70 < v \<and> v \<le> 100 then Some ''Good''
      else None)"

text \<open>A sub-score that is present and lies between two bounds.\<close>

definition in_range :: "real \<Rightarrow> real \<Rightarrow> cell \<Rightarrow> bool" where
  "in_range lo hi c = (case c of None \<Rightarrow> False | Some v \<Rightarrow> lo \<le> v \<and> v \<le> hi)"

text \<open>The planar distance, in degrees, between a station and a query point.\<close>

definition degree_distance :: "station \<Rightarrow> real \<Rightarrow> real \<Rightarrow> real" where
  "degree_distance s = (\<lambda>lat lon. sqrt ((station.lat s - lat)\<^sup>2 + (station.lon s - lon)\<^sup>2))"

text \<open>
  Structurally valid input: the five frames share one \<^verbatim>\<open>datetime\<close> column, in which
  no timestamp occurs twice.
\<close>

definition structurally_valid :: "weather_data \<Rightarrow> bool" where
  "structurally_valid wd \<longleftrightarrow>
     distinct (map fst (temperature wd)) \<and>
     map fst (precipitation wd) = map fst (temperature wd) \<and>
     map fst (wind wd) = map fst (temperature wd) \<and>
     map fst (sunshine wd) = map fst (temperature wd) \<and>
     map fst (cloudiness wd) = map fst (temperature wd)"

text \<open>The merged row at position \<open>i\<close> of structurally valid input.\<close>

definition row_at :: "weather_data \<Rightarrow> nat \<Rightarrow> merged_row" where
  "row_at wd i =
     \<lparr>datetime = fst (temperature wd ! i),
      temperature_c = snd (temperature wd ! i),
      precipitation_mm = Some (snd (precipitation wd ! i)),
      wind_speed_ms = Some (snd (wind wd ! i)),
      sunshine_minutes = Some (snd (sunshine wd ! i)),
      cloud_cover_oktas = Some (snd (cloudiness wd ! i))\<rparr>"

text \<open>Input with a single timestamp, for concrete evaluations.\<close>

definition single_point ::
  "timestamp \<Rightarrow> real \<Rightarrow> real \<Rightarrow> real \<Rightarrow> real \<Rightarrow> real \<Rightarrow> weather_data" where
  "single_point k T P W S C =
     \<lparr>temperature = [(k, T)], precipitation = [(k, P)], wind = [(k, W)],
      sunshine = [(k, S)], cloudiness = [(k, C)]\<rparr>"

text \<open>
  Concrete random draws for evaluations: no noise, no rain event (the uniform draw
  \<open>1/2\<close> is not below \<open>0.2\<close>) and a cloud factor of \<open>1/4\<close> everywhere.
\<close>

definition example_draws :: random_draws where
  "example_draws =
     \<lparr>temperature_noise = (\<lambda>i. 0), rain_uniform = (\<lambda>i. 1 / 2), rain_amount = (\<lambda>i. 2),
      wind_noise = (\<lambda>i. 0), cloud_factor = (\<lambda>i. 1 / 4), cloud_noise = (\<lambda>i. 0)\<rparr>"

section \<open>Properties of the merge\<close>

text \<open>
  On structurally valid input the join pairs rows by position: the merged frame has one
  row per timestamp, none of whose cells is missing.
\<close>

lemma filter_key_distinct:
  "distinct (map fst df) \<Longrightarrow> i < length df \<Longrightarrow>
   filter (\<lambda>(k', v). k' = fst (df ! i)) df = [df ! i]"
proof (induction df arbitrary: i)
  case Nil
  then show ?case by simp
next
  case (Cons a df)
  show ?case
  proof (cases i)
    case 0
    have "fst a \<notin> fst ` set df" using Cons.prems(1) by simp
    then have "\<forall>x\<in>set df. fst x \<noteq> fst a" by (metis imageI)
    then have "filter (\<lambda>(k', v). k' = fst a) df = []"
      by (simp add: filter_empty_conv case_prod_unfold)
    with 0 show ?thesis by (simp add: case_prod_unfold)
  next
    case (Suc j)
    then have j: "j < length df" using Cons.prems(2) by simp
    then have "fst (df ! j) \<in> fst ` set df" by simp
    moreover have "fst a \<notin> fst ` set df" using Cons.prems(1) by simp
    ultimately have "fst a \<noteq> fst (df ! j)" by metis
    moreover have "filter (\<lambda>(k', v). k' = fst (df ! j)) df = [df ! j]"
      using Cons.IH j Cons.prems(1) by simp
    ultimately show ?thesis using Suc by (simp add: case_prod_unfold)
  qed
qed

lemma matches_at:
  assumes "distinct (map fst df)" and "i < length df"
  shows "matches (fst (df ! i)) df = [Some (snd (df ! i))]"
  using filter_key_distinct [OF assms] by (simp add: matches_def case_prod_unfold)

lemma matches_shared:
  assumes "map fst df = map fst tf" and "distinct (map fst tf)" and "i < length tf"
  shows "matches (fst (tf ! i)) df = [Some (snd (df ! i))]"
proof -
  have len: "length df = length tf" using assms(1) by (metis length_map)
  have "fst (df ! i) = fst (tf ! i)"
    using assms(1,3) len by (metis nth_map)
  moreover have "distinct (map fst df)" using assms(1,2) by simp
  ultimately show ?thesis using matches_at [of df i] assms(3) len by simp
qed

lemma merge_frames_valid:
  assumes "structurally_valid wd"
  shows "merge_frames wd = map (row_at wd) [0..<length (temperature wd)]"
proof -
  let ?T = "temperature wd"
  let ?f = "\<lambda>(k, t). concat (map (\<lambda>p. concat (map (\<lambda>w. concat (map (\<lambda>s.
              map (\<lambda>c. \<lparr>datetime = k, temperature_c = t, precipitation_mm = p,
                wind_speed_ms = w, sunshine_minutes = s, cloud_cover_oktas = c\<rparr>)
              (matches k (cloudiness wd))) (matches k (sunshine wd))))
              (matches k (wind wd)))) (matches k (precipitation wd)))"
  have d: "distinct (map fst ?T)" using assms by (simp add: structurally_valid_def)
  have one: "?f (?T ! i) = [row_at wd i]" if "i < length ?T" for i
  proof -
    have "matches (fst (?T ! i)) (precipitation wd) = [Some (snd (precipitation wd ! i))]"
      and "matches (fst (?T ! i)) (wind wd) = [Some (snd (wind wd ! i))]"
      and "matches (fst (?T ! i)) (sunshine wd) = [Some (snd (sunshine wd ! i))]"
      and "matches (fst (?T ! i)) (cloudiness wd) = [Some (snd (cloudiness wd ! i))]"
      using assms that d by (simp_all add: structurally_valid_def matches_shared)
    then show ?thesis by (simp add: case_prod_unfold row_at_def)
  qed
  have "merge_frames wd = concat (map ?f ?T)" by (simp add: merge_frames_def)
  also have "map ?f ?T = map (\<lambda>i. [row_at wd i]) [0..<length ?T]"
    by (rule nth_equalityI) (simp_all add: one)
  also have "concat (map (\<lambda>i. [row_at wd i]) [0..<length ?T]) = map (row_at wd) [0..<length ?T]"
    by (induction "length ?T") simp_all
  finally show ?thesis by simp
qed


section \<open>Properties of the scores\<close>

lemma np_clip_spec: "lo \<le> hi \<Longrightarrow> np_clip x lo hi = spec_clip x lo hi"
  by (simp add: np_clip_def spec_clip_def min_def max_def)

lemma spec_clip_range: "lo \<le> hi \<Longrightarrow> lo \<le> spec_clip x lo hi \<and> spec_clip x lo hi \<le> hi"
  by (simp add: spec_clip_def)

lemma weighted_sum5:
  "weighted_sum (zip [Some t, p, w, s, c] weights) =
     (case (p, w, s, c) of
        (Some p', Some w', Some s', Some c') \<Rightarrow> Some (spec_SSI t p' w' s' c')
      | _ \<Rightarrow> None)"
  by (simp add: weighted_sum_def weights_def nan_add_def nan_mul_def spec_SSI_def
      split: option.splits)

lemma pd_cut_bucket:
  "pd_cut x [0, 40, 70, 100] [''Poor'', ''Moderate'', ''Good''] = Option.bind x bucket"
  by (cases x) (auto simp: pd_cut_def searchsorted_left_def bucket_def Let_def)

lemma temp_score_code:
  "np_where (15 \<le> T \<and> T \<le> 25) 100
     (np_where (10 \<le> T \<and> T \<le> 30) 75 (np_where (5 \<le> T \<and> T \<le> 35) 50 25))
   = spec_temp_score T"
  by (simp add: np_where_def spec_temp_score_def)

lemma precip_score_code: "np_clip (100 - P * 10) 0 100 = spec_precip_score P"
  by (simp add: spec_precip_score_def np_clip_spec mult.commute)

lemma wind_score_code: "np_clip (100 - (W - 5) * 6.67) 0 100 = spec_wind_score W"
  by (simp add: spec_wind_score_def np_clip_spec mult.commute)

lemma sun_score_code: "25 + (S / 60) * 75 = spec_sun_score S"
  by (simp add: spec_sun_score_def)

lemma cloud_score_code: "100 - (np_clip C 0 8 / 8) * 75 = spec_cloud_score C"
  by (simp add: spec_cloud_score_def np_clip_spec)

lemma scores_of_fields:
  "datetime (scores_of m) = datetime m"
  "temp_score (scores_of m) = spec_temp_score (temperature_c m)"
  "precip_score (scores_of m) = map_option spec_precip_score (precipitation_mm m)"
  "wind_score (scores_of m) = map_option spec_wind_score (wind_speed_ms m)"
  "sun_score (scores_of m) = map_option spec_sun_score (sunshine_minutes m)"
  "cloud_score (scores_of m) = map_option spec_cloud_score (cloud_cover_oktas m)"
  unfolding scores_of_def Let_def temp_score_code precip_score_code wind_score_code
    sun_score_code option.map_comp comp_def cloud_score_code
  by simp_all

lemma scores_of_SSI:
  "SSI (scores_of m) =
     weighted_sum (zip [Some (temp_score (scores_of m)), precip_score (scores_of m),
       wind_score (scores_of m), sun_score (scores_of m), cloud_score (scores_of m)] weights)"
  by (simp add: scores_of_def Let_def)

lemma scores_of_category:
  "category (scores_of m) = Option.bind (SSI (scores_of m)) bucket"
  "color (scores_of m) = Option.bind (category (scores_of m)) color_of"
  by (simp_all add: scores_of_def Let_def pd_cut_bucket)


lemmas eval_ssi = calculate_ssi_def merge_frames_def matches_def scores_of_def np_where_def
  np_clip_def weighted_sum_def weights_def nan_add_def nan_mul_def pd_cut_def
  searchsorted_left_def color_of_def Let_def single_point_def

text \<open>
  C1 (as amended). The category of every row is the bucket of its SSI under the
  right-closed intervals \<open>(0, 40]\<close>, \<open>(40, 70]\<close> and \<open>(70, 100]\<close>: an SSI of exactly 40 is
  Poor, exactly 70 is Moderate, 70.01 and 100 are Good. The lowest interval is open at
  its left edge, so an SSI of exactly 0 gets no category (and neither does a missing SSI
  or one outside \<open>(0, 100]\<close>).
\<close>

theorem category_buckets:
  "map category (calculate_ssi wd) = map (\<lambda>r. Option.bind (SSI r) bucket) (calculate_ssi wd)
   \<and> pd_cut (Some 40) [0, 40, 70, 100] [''Poor'', ''Moderate'', ''Good''] = Some ''Poor''
   \<and> pd_cut (Some 70) [0, 40, 70, 100] [''Poor'', ''Moderate'', ''Good''] = Some ''Moderate''
   \<and> pd_cut (Some 70.01) [0, 40, 70, 100] [''Poor'', ''Moderate'', ''Good''] = Some ''Good''
   \<and> pd_cut (Some 100) [0, 40, 70, 100] [''Poor'', ''Moderate'', ''Good''] = Some ''Good''
   \<and> pd_cut (Some 0) [0, 40, 70, 100] [''Poor'', ''Moderate'', ''Good''] = None"
  by (simp add: calculate_ssi_def scores_of_category pd_cut_bucket bucket_def)

text \<open>
  C1 as stated fails at SSI 0. One timestamp with temperature 0, precipitation 10, wind 20,
  sunshine -70 and cloud cover 8 has the sub-scores 25, 0, 0, -62.5 and 25, hence the SSI
  \<open>3.75 - 6.25 + 2.5 = 0\<close>; its category is missing, not Poor.
\<close>

theorem category_at_zero_counterexample:
  "map SSI (calculate_ssi (single_point 0 0 10 20 (-70) 8)) = [Some 0]
   \<and> map category (calculate_ssi (single_point 0 0 10 20 (-70) 8)) = [None]
   \<and> map category (calculate_ssi (single_point 0 0 10 20 (-70) 8)) \<noteq> [Some ''Poor'']"
  by (simp add: eval_ssi)

text \<open>
  C2. The SSI of every row is the weighted sum
  \<open>0.15 temp_score + 0.35 precip_score + 0.30 wind_score + 0.10 sun_score + 0.10 cloud_score\<close>
  of the row's sub-scores (missing when one of them is missing); the weights sum to 1;
  and a row whose five sub-scores are all 100 has SSI 100, category Good and color
  \<^verbatim>\<open>#44FF44\<close>.
\<close>

theorem ssi_weighted_sum:
  "map SSI (calculate_ssi wd) =
     map (\<lambda>r. case (precip_score r, wind_score r, sun_score r, cloud_score r) of
                (Some p, Some w, Some s, Some c) \<Rightarrow> Some (spec_SSI (temp_score r) p w s c)
              | _ \<Rightarrow> None)
       (calculate_ssi wd)
   \<and> sum_list weights = 1
   \<and> (\<forall>r \<in> set (calculate_ssi wd).
        temp_score r = 100 \<and> precip_score r = Some 100 \<and> wind_score r = Some 100 \<and>
        sun_score r = Some 100 \<and> cloud_score r = Some 100 \<longrightarrow>
        SSI r = Some 100 \<and> category r = Some ''Good'' \<and> color r = Some ''#44FF44'')"
proof (intro conjI ballI impI)
  show "map SSI (calculate_ssi wd) =
     map (\<lambda>r. case (precip_score r, wind_score r, sun_score r, cloud_score r) of
                (Some p, Some w, Some s, Some c) \<Rightarrow> Some (spec_SSI (temp_score r) p w s c)
              | _ \<Rightarrow> None)
       (calculate_ssi wd)"
    by (simp add: calculate_ssi_def scores_of_SSI weighted_sum5)
  show "sum_list weights = 1" by (simp add: weights_def)
next
  fix r
  assume r: "r \<in> set (calculate_ssi wd)"
    and all: "temp_score r = 100 \<and> precip_score r = Some 100 \<and> wind_score r = Some 100 \<and>
        sun_score r = Some 100 \<and> cloud_score r = Some 100"
  from r obtain m where m: "r = scores_of m" by (auto simp: calculate_ssi_def)
  have ssi: "SSI r = Some 100"
    using all unfolding m scores_of_SSI weighted_sum5 by (simp add: spec_SSI_def)
  then show "SSI r = Some 100" .
  from ssi show "category r = Some ''Good''"
    unfolding m scores_of_category by (simp add: bucket_def)
  then show "color r = Some ''#44FF44''"
    unfolding m scores_of_category by (simp add: color_of_def)
qed

text \<open>
  Temperature 20, no rain, wind 5, 60 minutes of sunshine and a clear sky give five
  sub-scores of 100.
\<close>

theorem ssi_weighted_sum_witness:
  "map (\<lambda>r. (temp_score r, precip_score r, wind_score r, sun_score r, cloud_score r))
     (calculate_ssi (single_point 0 20 0 5 60 0))
     = [(100, Some 100, Some 100, Some 100, Some 100)]
   \<and> map (\<lambda>r. (SSI r, category r, color r)) (calculate_ssi (single_point 0 20 0 5 60 0))
     = [(Some 100, Some ''Good'', Some ''#44FF44'')]"
  using ssi_weighted_sum [of "single_point 0 20 0 5 60 0"]
  by (simp add: eval_ssi)

text \<open>
  C3. For every input, the columns \<^verbatim>\<open>temp_score\<close>, \<^verbatim>\<open>precip_score\<close> and \<^verbatim>\<open>wind_score\<close>
  hold, row by row of the merged frame, the values of the specification's formulas:
  100 if \<open>15 \<le> T \<le> 25\<close>, else 75 if \<open>10 \<le> T \<le> 30\<close>, else 50 if \<open>5 \<le> T \<le> 35\<close>, else 25;
  \<open>clip (100 - 10 P) 0 100\<close>; and \<open>clip (100 - 6.67 (W - 5)) 0 100\<close> (a missing cell stays
  missing). On structurally valid input the row at position \<open>i\<close> is computed from the
  values at position \<open>i\<close> of the input series.
\<close>

theorem temp_precip_wind_scores:
  "length (calculate_ssi wd) = length (merge_frames wd)
   \<and> map temp_score (calculate_ssi wd) =
       map (\<lambda>m. spec_temp_score (temperature_c m)) (merge_frames wd)
   \<and> map precip_score (calculate_ssi wd) =
       map (\<lambda>m. map_option spec_precip_score (precipitation_mm m)) (merge_frames wd)
   \<and> map wind_score (calculate_ssi wd) =
       map (\<lambda>m. map_option spec_wind_score (wind_speed_ms m)) (merge_frames wd)
   \<and> (structurally_valid wd \<longrightarrow>
        map (\<lambda>r. (datetime r, temp_score r, precip_score r, wind_score r)) (calculate_ssi wd) =
        map (\<lambda>i. (fst (temperature wd ! i),
                   spec_temp_score (snd (temperature wd ! i)),
                   Some (spec_precip_score (snd (precipitation wd ! i))),
                   Some (spec_wind_score (snd (wind wd ! i)))))
          [0..<length (temperature wd)])"
  by (simp add: calculate_ssi_def scores_of_fields merge_frames_valid row_at_def comp_def)

text \<open>Temperature 12, precipitation 3 and wind 10 score 75, 70 and 66.65.\<close>

theorem temp_precip_wind_scores_witness:
  "structurally_valid (single_point 0 12 3 10 30 4)
   \<and> map (\<lambda>r. (datetime r, temp_score r, precip_score r, wind_score r))
        (calculate_ssi (single_point 0 12 3 10 30 4)) = [(0, 75, Some 70, Some 66.65)]"
  using temp_precip_wind_scores [of "single_point 0 12 3 10 30 4"]
  by (simp add: structurally_valid_def single_point_def spec_temp_score_def
      spec_precip_score_def spec_wind_score_def spec_clip_def)

subsection \<open>Ranges of the sub-scores\<close>

lemma spec_temp_score_values: "spec_temp_score T \<in> {25, 50, 75, 100}"
  by (simp add: spec_temp_score_def)

lemma spec_precip_score_range: "0 \<le> spec_precip_score P \<and> spec_precip_score P \<le> 100"
  by (simp add: spec_precip_score_def spec_clip_range)

lemma spec_wind_score_range: "0 \<le> spec_wind_score W \<and> spec_wind_score W \<le> 100"
  by (simp add: spec_wind_score_def spec_clip_range)

lemma spec_cloud_score_range: "25 \<le> spec_cloud_score C \<and> spec_cloud_score C \<le> 100"
  using spec_clip_range [of 0 8 C] by (simp add: spec_cloud_score_def)

lemma calculate_ssi_valid:
  "structurally_valid wd \<Longrightarrow>
   calculate_ssi wd = map (\<lambda>i. scores_of (row_at wd i)) [0..<length (temperature wd)]"
  by (simp add: calculate_ssi_def merge_frames_valid)

text \<open>
  Every cell that the join writes into the sunshine or the cloud cover column of a merged
  row is a value that the input frame holds at the row's timestamp; the cell is missing
  exactly when the input frame has no row for that timestamp.
\<close>

lemma matches_cells:
  assumes "z \<in> set (matches k df)"
  shows "case z of Some v \<Rightarrow> (k, v) \<in> set df | None \<Rightarrow> k \<notin> fst ` set df"
proof (cases "filter (\<lambda>(k', v). k' = k) df")
  case Nil
  then have z: "z = None" using assms by (simp add: matches_def)
  from Nil have "\<forall>x \<in> set df. fst x \<noteq> k"
    by (simp add: filter_empty_conv case_prod_unfold)
  then have "k \<notin> fst ` set df" by blast
  with z show ?thesis by simp
next
  case (Cons a ms)
  then have "matches k df = map (\<lambda>(k', v). Some v) (filter (\<lambda>(k', v). k' = k) df)"
    by (simp add: matches_def)
  with assms obtain x where x: "x \<in> set (filter (\<lambda>(k', v). k' = k) df)"
    and z: "z = (case x of (k', v) \<Rightarrow> Some v)"
    by auto
  from x have "x \<in> set df" and "fst x = k" by (simp_all add: case_prod_unfold)
  then have "(k, snd x) \<in> set df" by (metis prod.collapse)
  with z show ?thesis by (simp add: case_prod_unfold)
qed

lemma merge_frames_cells:
  assumes "m \<in> set (merge_frames wd)"
  shows "(case sunshine_minutes m of
            Some s \<Rightarrow> (datetime m, s) \<in> set (sunshine wd)
          | None \<Rightarrow> datetime m \<notin> fst ` set (sunshine wd))
       \<and> (case cloud_cover_oktas m of
            Some c \<Rightarrow> (datetime m, c) \<in> set (cloudiness wd)
          | None \<Rightarrow> datetime m \<notin> fst ` set (cloudiness wd))"
proof -
  from assms obtain k t p w s c where m: "m = \<lparr>datetime = k, temperature_c = t,
      precipitation_mm = p, wind_speed_ms = w, sunshine_minutes = s, cloud_cover_oktas = c\<rparr>"
    and s: "s \<in> set (matches k (sunshine wd))" and c: "c \<in> set (matches k (cloudiness wd))"
    by (auto simp: merge_frames_def)
  from matches_cells [OF s] matches_cells [OF c] show ?thesis
    by (cases s; cases c; simp add: m)
qed

text \<open>
  C4. For every input, \<^verbatim>\<open>sun_score\<close> is \<open>25 + 75 (S / 60)\<close> with no upper clamp (it
  exceeds 100 whenever \<open>S > 60\<close>) and \<^verbatim>\<open>cloud_score\<close> is \<open>100 - 75 (clip C 0 8 / 8)\<close>,
  where \<open>S\<close> and \<open>C\<close> are the sunshine and cloud cover that the input series hold at the
  row's timestamp (a score is missing when the input has no value there); on structurally
  valid input the row at position \<open>i\<close> is computed from the values at position \<open>i\<close> of the
  sunshine and cloudiness series. Every \<^verbatim>\<open>temp_score\<close> is one of 25, 50, 75, 100, and
  every \<^verbatim>\<open>precip_score\<close>, \<^verbatim>\<open>wind_score\<close> and \<^verbatim>\<open>cloud_score\<close> that is present lies in
  \<open>[0, 100]\<close>, \<open>[0, 100]\<close> and \<open>[25, 100]\<close>; on structurally valid input all of them are
  present.
\<close>

theorem sun_cloud_scores_and_ranges:
  "map sun_score (calculate_ssi wd) =
       map (\<lambda>m. map_option spec_sun_score (sunshine_minutes m)) (merge_frames wd)
   \<and> map cloud_score (calculate_ssi wd) =
       map (\<lambda>m. map_option spec_cloud_score (cloud_cover_oktas m)) (merge_frames wd)
   \<and> (\<forall>m \<in> set (merge_frames wd).
        (case sunshine_minutes m of
            Some s \<Rightarrow> (datetime m, s) \<in> set (sunshine wd)
          | None \<Rightarrow> datetime m \<notin> fst ` set (sunshine wd)) \<and>
        (case cloud_cover_oktas m of
            Some c \<Rightarrow> (datetime m, c) \<in> set (cloudiness wd)
          | None \<Rightarrow> datetime m \<notin> fst ` set (cloudiness wd)))
   \<and> (structurally_valid wd \<longrightarrow>
        map (\<lambda>r. (datetime r, sun_score r, cloud_score r)) (calculate_ssi wd) =
        map (\<lambda>i. (fst (temperature wd ! i),
                   Some (spec_sun_score (snd (sunshine wd ! i))),
                   Some (spec_cloud_score (snd (cloudiness wd ! i)))))
          [0..<length (temperature wd)])
   \<and> (\<forall>S. 60 < S \<longrightarrow> 100 < spec_sun_score S)
   \<and> (\<forall>r \<in> set (calculate_ssi wd).
        temp_score r \<in> {25, 50, 75, 100} \<and>
        (\<forall>v. precip_score r = Some v \<longrightarrow> 0 \<le> v \<and> v \<le> 100) \<and>
        (\<forall>v. wind_score r = Some v \<longrightarrow> 0 \<le> v \<and> v \<le> 100) \<and>
        (\<forall>v. cloud_score r = Some v \<longrightarrow> 25 \<le> v \<and> v \<le> 100))
   \<and> (structurally_valid wd \<longrightarrow>
        (\<forall>r \<in> set (calculate_ssi wd).
           in_range 0 100 (precip_score r) \<and> in_range 0 100 (wind_score r) \<and>
           in_range 25 100 (cloud_score r) \<and> sun_score r \<noteq> None))"
proof (intro conjI)
  show "map sun_score (calculate_ssi wd) =
       map (\<lambda>m. map_option spec_sun_score (sunshine_minutes m)) (merge_frames wd)"
    by (simp add: calculate_ssi_def scores_of_fields)
  show "map cloud_score (calculate_ssi wd) =
       map (\<lambda>m. map_option spec_cloud_score (cloud_cover_oktas m)) (merge_frames wd)"
    by (simp add: calculate_ssi_def scores_of_fields)
  show "\<forall>m \<in> set (merge_frames wd).
        (case sunshine_minutes m of
            Some s \<Rightarrow> (datetime m, s) \<in> set (sunshine wd)
          | None \<Rightarrow> datetime m \<notin> fst ` set (sunshine wd)) \<and>
        (case cloud_cover_oktas m of
            Some c \<Rightarrow> (datetime m, c) \<in> set (cloudiness wd)
          | None \<Rightarrow> datetime m \<notin> fst ` set (cloudiness wd))"
    using merge_frames_cells by blast
  show "structurally_valid wd \<longrightarrow>
        map (\<lambda>r. (datetime r, sun_score r, cloud_score r)) (calculate_ssi wd) =
        map (\<lambda>i. (fst (temperature wd ! i),
                   Some (spec_sun_score (snd (sunshine wd ! i))),
                   Some (spec_cloud_score (snd (cloudiness wd ! i)))))
          [0..<length (temperature wd)]"
    by (simp add: calculate_ssi_def scores_of_fields merge_frames_valid row_at_def comp_def)
  show "\<forall>S. 60 < S \<longrightarrow> 100 < spec_sun_score S"
    by (simp add: spec_sun_score_def)
  show "\<forall>r \<in> set (calculate_ssi wd).
        temp_score r \<in> {25, 50, 75, 100} \<and>
        (\<forall>v. precip_score r = Some v \<longrightarrow> 0 \<le> v \<and> v \<le> 100) \<and>
        (\<forall>v. wind_score r = Some v \<longrightarrow> 0 \<le> v \<and> v \<le> 100) \<and>
        (\<forall>v. cloud_score r = Some v \<longrightarrow> 25 \<le> v \<and> v \<le> 100)"
  proof
    fix r assume "r \<in> set (calculate_ssi wd)"
    then obtain m where m: "r = scores_of m" by (auto simp: calculate_ssi_def)
    show "temp_score r \<in> {25, 50, 75, 100} \<and>
        (\<forall>v. precip_score r = Some v \<longrightarrow> 0 \<le> v \<and> v \<le> 100) \<and>
        (\<forall>v. wind_score r = Some v \<longrightarrow> 0 \<le> v \<and> v \<le> 100) \<and>
        (\<forall>v. cloud_score r = Some v \<longrightarrow> 25 \<le> v \<and> v \<le> 100)"
      unfolding m scores_of_fields
      using spec_temp_score_values spec_precip_score_range spec_wind_score_range
        spec_cloud_score_range
      by auto
  qed
  show "structurally_valid wd \<longrightarrow>
        (\<forall>r \<in> set (calculate_ssi wd).
           in_range 0 100 (precip_score r) \<and> in_range 0 100 (wind_score r) \<and>
           in_range 25 100 (cloud_score r) \<and> sun_score r \<noteq> None)"
  proof (intro impI ballI)
    fix r assume v: "structurally_valid wd" and "r \<in> set (calculate_ssi wd)"
    then obtain i where r: "r = scores_of (row_at wd i)"
      by (auto simp: calculate_ssi_valid)
    show "in_range 0 100 (precip_score r) \<and> in_range 0 100 (wind_score r) \<and>
           in_range 25 100 (cloud_score r) \<and> sun_score r \<noteq> None"
      unfolding r scores_of_fields
      by (simp add: row_at_def in_range_def spec_precip_score_range spec_wind_score_range
          spec_cloud_score_range)
  qed
qed

text \<open>
  Two timestamps with different values. With 120 minutes of sunshine the sun score is
  175 while the other sub-scores of that row stay in their ranges (temperature 40,
  precipitation 3, wind 10, cloud cover 9); 30 minutes of sunshine and a cloud cover of 4
  in the second row score 62.5 each.
\<close>

theorem sun_cloud_scores_and_ranges_witness:
  "structurally_valid
     \<lparr>temperature = [(0, 40), (3600000000, 20)], precipitation = [(0, 3), (3600000000, 0)],
      wind = [(0, 10), (3600000000, 5)], sunshine = [(0, 120), (3600000000, 30)],
      cloudiness = [(0, 9), (3600000000, 4)]\<rparr>
   \<and> map (\<lambda>r. (datetime r, temp_score r, precip_score r, wind_score r, sun_score r, cloud_score r))
        (calculate_ssi
          \<lparr>temperature = [(0, 40), (3600000000, 20)], precipitation = [(0, 3), (3600000000, 0)],
           wind = [(0, 10), (3600000000, 5)], sunshine = [(0, 120), (3600000000, 30)],
           cloudiness = [(0, 9), (3600000000, 4)]\<rparr>)
      = [(0, 25, Some 70, Some 66.65, Some 175, Some 25),
         (3600000000, 100, Some 100, Some 100, Some 62.5, Some 62.5)]
   \<and> list_all (\<lambda>r. in_range 0 100 (precip_score r) \<and> in_range 0 100 (wind_score r) \<and>
           in_range 25 100 (cloud_score r) \<and> sun_score r \<noteq> None)
        (calculate_ssi
          \<lparr>temperature = [(0, 40), (3600000000, 20)], precipitation = [(0, 3), (3600000000, 0)],
           wind = [(0, 10), (3600000000, 5)], sunshine = [(0, 120), (3600000000, 30)],
           cloudiness = [(0, 9), (3600000000, 4)]\<rparr>)"
  using sun_cloud_scores_and_ranges
    [of "\<lparr>temperature = [(0, 40), (3600000000, 20)], precipitation = [(0, 3), (3600000000, 0)],
      wind = [(0, 10), (3600000000, 5)], sunshine = [(0, 120), (3600000000, 30)],
      cloudiness = [(0, 9), (3600000000, 4)]\<rparr>"]
  by (simp add: structurally_valid_def eval_ssi in_range_def)

text \<open>
  C9. On structurally valid input whose sunshine values are all non-negative, every SSI
  is present and at least 8.75, hence never 0 or below.
\<close>

theorem ssi_lower_bound:
  assumes "structurally_valid wd" and "list_all (\<lambda>(t, s). 0 \<le> s) (sunshine wd)"
  shows "\<forall>r \<in> set (calculate_ssi wd). \<exists>v. SSI r = Some v \<and> 8.75 \<le> v \<and> 0 < v"
proof
  fix r assume "r \<in> set (calculate_ssi wd)"
  then obtain i where i: "i < length (temperature wd)" and r: "r = scores_of (row_at wd i)"
    using assms(1) by (auto simp: calculate_ssi_valid)
  let ?T = "snd (temperature wd ! i)" and ?P = "snd (precipitation wd ! i)"
  let ?W = "snd (wind wd ! i)" and ?S = "snd (sunshine wd ! i)"
  let ?C = "snd (cloudiness wd ! i)"
  have "length (sunshine wd) = length (temperature wd)"
    using assms(1) by (metis structurally_valid_def length_map)
  then have "sunshine wd ! i \<in> set (sunshine wd)" using i by simp
  then have S: "0 \<le> ?S" using assms(2) by (auto simp: list_all_iff)
  have ssi: "SSI r = Some (spec_SSI (spec_temp_score ?T) (spec_precip_score ?P)
      (spec_wind_score ?W) (spec_sun_score ?S) (spec_cloud_score ?C))"
    unfolding r scores_of_SSI scores_of_fields weighted_sum5 by (simp add: row_at_def)
  have "25 \<le> spec_temp_score ?T" using spec_temp_score_values [of ?T] by auto
  moreover have "25 \<le> spec_sun_score ?S" using S by (simp add: spec_sun_score_def)
  moreover note spec_precip_score_range [of ?P] spec_wind_score_range [of ?W]
    spec_cloud_score_range [of ?C]
  ultimately have "8.75 \<le> spec_SSI (spec_temp_score ?T) (spec_precip_score ?P)
      (spec_wind_score ?W) (spec_sun_score ?S) (spec_cloud_score ?C)"
    by (simp add: spec_SSI_def)
  with ssi show "\<exists>v. SSI r = Some v \<and> 8.75 \<le> v \<and> 0 < v" by simp
qed

text \<open>
  The bound is attained: temperature 0, precipitation 10, wind 20, no sunshine and cloud
  cover 8 give the SSI 8.75.
\<close>

theorem ssi_lower_bound_witness:
  "structurally_valid (single_point 0 0 10 20 0 8)
   \<and> list_all (\<lambda>(t, s). 0 \<le> s) (sunshine (single_point 0 0 10 20 0 8))
   \<and> map SSI (calculate_ssi (single_point 0 0 10 20 0 8)) = [Some 8.75]
   \<and> list_all (\<lambda>r. \<exists>v. SSI r = Some v \<and> 8.75 \<le> v \<and> 0 < v)
       (calculate_ssi (single_point 0 0 10 20 0 8))"
proof -
  have v: "structurally_valid (single_point 0 0 10 20 0 8)"
    by (simp add: structurally_valid_def single_point_def)
  have s: "list_all (\<lambda>(t, s). 0 \<le> s) (sunshine (single_point 0 0 10 20 0 8))"
    by (simp add: single_point_def)
  have e: "map SSI (calculate_ssi (single_point 0 0 10 20 0 8)) = [Some 8.75]"
    by (simp add: eval_ssi)
  from ssi_lower_bound [OF v s] v s e show ?thesis by (simp add: list_all_iff)
qed

section \<open>Properties of find\_nearest\_station\<close>

text \<open>
  The scan returns a position of the least element, and every earlier element is
  strictly larger: the first minimum.
\<close>

lemma scan_min_first_min:
  assumes "drop i ds = xs" and "bi < i" and "i \<le> length ds"
    and "\<forall>j<i. ds ! bi \<le> ds ! j" and "\<forall>j<bi. ds ! bi < ds ! j"
  shows "\<exists>ri<length ds. scan_min xs i (bi, ds ! bi) = (ri, ds ! ri) \<and>
           (\<forall>j<length ds. ds ! ri \<le> ds ! j) \<and> (\<forall>j<ri. ds ! ri < ds ! j)"
  using assms
proof (induction xs arbitrary: i bi)
  case Nil
  then have "i = length ds" by simp
  with Nil show ?case by auto
next
  case (Cons x xs)
  from Cons.prems(1) have i: "i < length ds"
    by (metis drop_all list.distinct(1) not_le_imp_less)
  with Cons.prems(1) have x: "x = ds ! i" and xs: "drop (Suc i) ds = xs"
    by (simp_all add: Cons_nth_drop_Suc [symmetric])
  show ?case
  proof (cases "x < ds ! bi")
    case True
    have a: "\<forall>j<Suc i. ds ! i \<le> ds ! j"
      using True x Cons.prems(4) by (auto simp: less_Suc_eq)
    have b: "\<forall>j<i. ds ! i < ds ! j"
      using True x Cons.prems(4) by force
    from Cons.IH [OF xs _ _ a b] i True x show ?thesis by simp
  next
    case False
    have a: "\<forall>j<Suc i. ds ! bi \<le> ds ! j"
      using False x Cons.prems(4) by (auto simp: less_Suc_eq)
    from Cons.IH [OF xs _ _ a Cons.prems(5)] i False x Cons.prems(2) show ?thesis by simp
  qed
qed

lemma idxmin_first_min:
  assumes "ds \<noteq> []"
  shows "\<exists>i<length ds. idxmin ds = Inr i \<and>
           (\<forall>j<length ds. ds ! i \<le> ds ! j) \<and> (\<forall>j<i. ds ! i < ds ! j)"
proof -
  from assms obtain x xs where ds: "ds = x # xs" by (cases ds) auto
  have "\<exists>ri<length ds. scan_min xs 1 (0, ds ! 0) = (ri, ds ! ri) \<and>
           (\<forall>j<length ds. ds ! ri \<le> ds ! j) \<and> (\<forall>j<ri. ds ! ri < ds ! j)"
    by (rule scan_min_first_min) (simp_all add: ds)
  then show ?thesis by (auto simp: ds)
qed

text \<open>
  C5. On a non-empty catalog and for every query point, \<open>find_nearest_station\<close> returns
  a catalog record whose planar degree distance \<open>d\<close> to the query is minimal, with
  \<open>distance_km = 111 d\<close>; every record before it in the catalog is strictly farther, so of
  several nearest records the first wins.
\<close>

theorem find_nearest_station_minimizes:
  fixes lat lon :: real
  assumes "stations_df \<noteq> []"
  shows "\<exists>i<length stations_df.
           find_nearest_station stations_df lat lon =
             Inr (Some (station.extend (stations_df ! i)
                    \<lparr>distance_km = degree_distance (stations_df ! i) lat lon * 111\<rparr>)) \<and>
           (\<forall>j<length stations_df.
              degree_distance (stations_df ! i) lat lon \<le> degree_distance (stations_df ! j) lat lon) \<and>
           (\<forall>j<i.
              degree_distance (stations_df ! i) lat lon < degree_distance (stations_df ! j) lat lon)"
proof -
  let ?ds = "map (\<lambda>s. degree_distance s lat lon) stations_df"
  have "?ds \<noteq> []" using assms by simp
  from idxmin_first_min [OF this] obtain i where i: "i < length stations_df"
    and m: "idxmin ?ds = Inr i"
    and le: "\<forall>j<length stations_df. ?ds ! i \<le> ?ds ! j"
    and lt: "\<forall>j<i. ?ds ! i < ?ds ! j"
    by auto
  have "find_nearest_station stations_df lat lon =
          Inr (Some (station.extend (stations_df ! i)
                 \<lparr>distance_km = degree_distance (stations_df ! i) lat lon * 111\<rparr>))"
    using assms i m by (simp add: find_nearest_station_def degree_distance_def Let_def)
  moreover have "\<forall>j<length stations_df.
      degree_distance (stations_df ! i) lat lon \<le> degree_distance (stations_df ! j) lat lon"
    using le i by simp
  moreover have "\<forall>j<i.
      degree_distance (stations_df ! i) lat lon < degree_distance (stations_df ! j) lat lon"
    using lt i by simp
  ultimately show ?thesis using i by blast
qed

text \<open>
  C6. On an empty catalog \<open>find_nearest_station\<close> returns \<open>None\<close> for every query point;
  no exception is raised.
\<close>

theorem find_nearest_station_empty:
  fixes lat lon :: real
  shows "find_nearest_station [] lat lon = Inr None"
  by (simp add: find_nearest_station_def)


text \<open>
  The catalog of the stations at (53.6332, 9.9881) and (53.0475, 8.7981), queried at
  (53.55, 9.99), yields the first station.
\<close>

theorem find_nearest_station_minimizes_witness:
  "[get_default_stations ! 0, get_default_stations ! 3] \<noteq> []
   \<and> map (\<lambda>s. (station.lat s, station.lon s)) [get_default_stations ! 0, get_default_stations ! 3]
       = [(53.6332, 9.9881), (53.0475, 8.7981)]
   \<and> find_nearest_station [get_default_stations ! 0, get_default_stations ! 3] 53.55 9.99 =
       Inr (Some (station.extend (get_default_stations ! 0)
         \<lparr>distance_km = degree_distance (get_default_stations ! 0) 53.55 9.99 * 111\<rparr>))"
proof -
  let ?cat = "[get_default_stations ! 0, get_default_stations ! 3]"
  have lt: "degree_distance (?cat ! 0) 53.55 9.99 < degree_distance (?cat ! 1) 53.55 9.99"
    by (simp add: degree_distance_def get_default_stations_def power2_eq_square)
  from find_nearest_station_minimizes [of ?cat "53.55" "9.99"]
  obtain i where i: "i < length ?cat"
    and r: "find_nearest_station ?cat 53.55 9.99 =
             Inr (Some (station.extend (?cat ! i)
                    \<lparr>distance_km = degree_distance (?cat ! i) 53.55 9.99 * 111\<rparr>))"
    and le: "\<forall>j<length ?cat.
              degree_distance (?cat ! i) 53.55 9.99 \<le> degree_distance (?cat ! j) 53.55 9.99"
    by blast
  have "i = 0"
  proof (rule ccontr)
    assume "i \<noteq> 0"
    with i have "i = 1" by simp
    with le [rule_format, of 0]
    have "degree_distance (?cat ! 1) 53.55 9.99 \<le> degree_distance (?cat ! 0) 53.55 9.99"
      by simp
    with lt show False by simp
  qed
  with r show ?thesis by (simp add: get_default_stations_def)
qed

text \<open>The distance of that station from the query is between 9 and 10 km.\<close>

lemma default_distance_km:
  "9 < degree_distance (get_default_stations ! 0) 53.55 9.99 * 111
   \<and> degree_distance (get_default_stations ! 0) 53.55 9.99 * 111 < 10"
proof -
  let ?x = "(52 / 625)\<^sup>2 + (19 / 10000)\<^sup>2 :: real"
  have d: "degree_distance (get_default_stations ! 0) 53.55 9.99 = sqrt ?x"
    by (simp add: degree_distance_def get_default_stations_def)
  have a: "9 / 111 < sqrt ?x"
    by (rule real_less_rsqrt) (simp add: power2_eq_square)
  have b: "sqrt ?x < 10 / 111"
    by (rule real_less_lsqrt) (simp_all add: power2_eq_square)
  from a b show ?thesis unfolding d by linarith
qed

section \<open>Properties of generate\_weather\_data\<close>

text \<open>The definition with its local bindings inlined.\<close>

lemma generate_weather_data_eq:
  "generate_weather_data sid hours now rnd =
     (if \<not> datetime_ok (now - hours * HOUR) then Inl OverflowError
      else if \<not> (timestamp_ok (now - hours * HOUR) \<and> timestamp_ok now)
        then Inl OutOfBoundsDatetime
      else
        (let date_range = pd_date_range (now - hours * HOUR) now;
             n_hours = length date_range
         in Inr
           \<lparr>temperature = frame date_range
              (\<lambda>i. 12 + 8 * sin (2 * pi * (real i / real n_hours))
                   + 5 * sin (2 * pi * (real_of_int (hour (date_range ! i)) - 6) / 24)
                   + temperature_noise rnd i),
            precipitation = frame date_range
              (\<lambda>i. np_where (rain_uniform rnd i < 0.2) (rain_amount rnd i) 0),
            wind = frame date_range
              (\<lambda>i. 8 + 4 * sin (2 * pi * (real i / real n_hours) * 2) + wind_noise rnd i),
            sunshine = frame date_range
              (\<lambda>i. np_where (real_of_int (hour (date_range ! i)) \<ge> 6 \<and>
                             real_of_int (hour (date_range ! i)) \<le> 20)
                     (60 * (1 - cloud_factor rnd i)) 0),
            cloudiness = frame date_range
              (\<lambda>i. 4 + 3 * sin (2 * pi * (real i / real n_hours) * 1.5) + cloud_noise rnd i)\<rparr>))"
  by (simp add: generate_weather_data_def Let_def)

text \<open>The nanosecond range of pandas lies within the years 1 to 9999.\<close>

lemma timestamp_ok_datetime_ok: "timestamp_ok t \<Longrightarrow> datetime_ok t"
  by (simp add: timestamp_ok_def datetime_ok_def)

lemma HOUR_pos: "0 < HOUR"
  by (simp add: HOUR_def)

lemma length_pd_date_range:
  "length (pd_date_range (now - hours * HOUR) now) = nat (hours + 1)"
  using HOUR_pos by (simp add: pd_date_range_def)

lemma pd_date_range_hours:
  "pd_date_range (now - hours * HOUR) now =
     map (\<lambda>k. now - hours * HOUR + int k * HOUR) [0..<nat (hours + 1)]"
  using HOUR_pos by (simp add: pd_date_range_def)

lemma sorted_pd_date_range: "sorted_wrt (<) (pd_date_range s e)"
  using HOUR_pos by (simp add: pd_date_range_def sorted_wrt_map sorted_wrt_iff_nth_less)

lemma distinct_pd_date_range: "distinct (pd_date_range s e)"
  using sorted_pd_date_range [of s e] by (simp add: strict_sorted_iff)

lemma map_fst_frame: "map fst (frame date_range col) = date_range"
  by (rule nth_equalityI) (simp_all add: frame_def)

lemma map_snd_frame: "map snd (frame date_range col) = map col [0..<length date_range]"
  by (simp add: frame_def comp_def)

lemma length_frame: "length (frame date_range col) = length date_range"
  by (simp add: frame_def)


text \<open>
  A frame over the range from \<open>hours\<close> hours before \<open>now\<close> to \<open>now\<close>: \<open>hours + 1\<close> rows, one
  hour apart, the last at \<open>now\<close>.
\<close>

lemma hourly_index:
  assumes "0 \<le> hours" and "map fst s = pd_date_range (now - hours * HOUR) now"
  shows "length s = nat hours + 1 \<and>
         map fst s = map (\<lambda>k. now - hours * HOUR + int k * HOUR) [0..<nat hours + 1] \<and>
         sorted_wrt (<) (map fst s) \<and>
         (\<forall>i<nat hours. fst (s ! Suc i) - fst (s ! i) = HOUR) \<and>
         fst (last s) = now"
proof -
  have n: "nat (hours + 1) = nat hours + 1" using assms(1) by simp
  have ix: "map fst s = map (\<lambda>k. now - hours * HOUR + int k * HOUR) [0..<nat hours + 1]"
    using assms(2) by (simp only: pd_date_range_hours n)
  then have len: "length s = nat hours + 1" by (metis length_map length_upt diff_zero)
  have nth: "fst (s ! i) = now - hours * HOUR + int i * HOUR" if "i < nat hours + 1" for i
  proof -
    have "fst (s ! i) = map fst s ! i" using that len by simp
    also have "\<dots> = now - hours * HOUR + int i * HOUR"
      unfolding ix using that by (simp del: upt_Suc)
    finally show ?thesis .
  qed
  have step: "\<forall>i<nat hours. fst (s ! Suc i) - fst (s ! i) = HOUR"
    by (simp add: nth algebra_simps)
  have "s \<noteq> []" using len by auto
  then have "fst (last s) = fst (s ! nat hours)" using len by (simp add: last_conv_nth)
  also have "\<dots> = now" using assms(1) by (simp add: nth)
  finally have l: "fst (last s) = now" .
  have "sorted_wrt (<) (map fst s)" unfolding assms(2) by (rule sorted_pd_date_range)
  with len ix step l show ?thesis by blast
qed

text \<open>
  The call returns exactly when both ends of the range are pandas timestamps, and then
  every frame is built over the same range.
\<close>

lemma generate_weather_data_Inr:
  assumes "timestamp_ok (now - hours * HOUR)" and "timestamp_ok now"
  shows "\<exists>cT cP cW cC.
           generate_weather_data sid hours now rnd =
             Inr \<lparr>temperature = frame (pd_date_range (now - hours * HOUR) now) cT,
                  precipitation = frame (pd_date_range (now - hours * HOUR) now) cP,
                  wind = frame (pd_date_range (now - hours * HOUR) now) cW,
                  sunshine = frame (pd_date_range (now - hours * HOUR) now)
                    (\<lambda>i. np_where
                       (real_of_int (hour (pd_date_range (now - hours * HOUR) now ! i)) \<ge> 6 \<and>
                        real_of_int (hour (pd_date_range (now - hours * HOUR) now ! i)) \<le> 20)
                       (60 * (1 - cloud_factor rnd i)) 0),
                  cloudiness = frame (pd_date_range (now - hours * HOUR) now) cC\<rparr>"
proof -
  have ok: "datetime_ok (now - hours * HOUR)" using assms(1) by (rule timestamp_ok_datetime_ok)
  show ?thesis
    unfolding generate_weather_data_eq Let_def using ok assms
    by (simp only: if_False not_True_eq_False simp_thms) blast
qed

lemma generate_weather_data_Inl:
  assumes "\<not> (timestamp_ok (now - hours * HOUR) \<and> timestamp_ok now)"
  shows "generate_weather_data sid hours now rnd = Inl OverflowError
      \<or> generate_weather_data sid hours now rnd = Inl OutOfBoundsDatetime"
  using assms unfolding generate_weather_data_eq
  by (simp only: if_True if_False simp_thms split: if_split)

lemma generate_weather_data_InrD:
  assumes "generate_weather_data sid hours now rnd = Inr wd"
  shows "timestamp_ok (now - hours * HOUR) \<and> timestamp_ok now"
proof (rule ccontr)
  assume "\<not> (timestamp_ok (now - hours * HOUR) \<and> timestamp_ok now)"
  from generate_weather_data_Inl [OF this, of sid rnd] assms show False by auto
qed

text \<open>
  C7 (as amended). For every station id and every duration \<open>hours \<ge> 0\<close> for which
  both the call time and the instant \<open>hours\<close> hours before it are representable as pandas
  nanosecond timestamps, \<open>generate_weather_data\<close> returns five series of length
  \<open>hours + 1\<close> over one shared index, which is strictly increasing in steps of exactly one
  hour and ends at the call time. For any other non-negative duration the call raises an
  exception.
\<close>

theorem generate_weather_data_series:
  assumes "0 \<le> hours"
  shows "if timestamp_ok (now - hours * HOUR) \<and> timestamp_ok now
         then \<exists>wd. generate_weather_data sid hours now rnd = Inr wd \<and>
           (\<forall>s \<in> {temperature wd, precipitation wd, wind wd, sunshine wd, cloudiness wd}.
              length s = nat hours + 1 \<and>
              map fst s = map (\<lambda>k. now - hours * HOUR + int k * HOUR) [0..<nat hours + 1] \<and>
              sorted_wrt (<) (map fst s) \<and>
              (\<forall>i<nat hours. fst (s ! Suc i) - fst (s ! i) = HOUR) \<and>
              fst (last s) = now)
         else \<exists>e. generate_weather_data sid hours now rnd = Inl e"
proof (cases "timestamp_ok (now - hours * HOUR) \<and> timestamp_ok now")
  case False
  from generate_weather_data_Inl [OF this, of sid rnd] False show ?thesis by auto
next
  case True
  from generate_weather_data_Inr [of now hours sid rnd] True
  obtain cT cP cW cS cC where wd:
    "generate_weather_data sid hours now rnd =
             Inr \<lparr>temperature = frame (pd_date_range (now - hours * HOUR) now) cT,
                  precipitation = frame (pd_date_range (now - hours * HOUR) now) cP,
                  wind = frame (pd_date_range (now - hours * HOUR) now) cW,
                  sunshine = frame (pd_date_range (now - hours * HOUR) now) cS,
                  cloudiness = frame (pd_date_range (now - hours * HOUR) now) cC\<rparr>"
    by blast
  let ?dr = "pd_date_range (now - hours * HOUR) now"
  let ?wd = "\<lparr>temperature = frame ?dr cT, precipitation = frame ?dr cP, wind = frame ?dr cW,
               sunshine = frame ?dr cS, cloudiness = frame ?dr cC\<rparr>"
  let ?P = "\<lambda>s. length s = nat hours + 1 \<and>
              map fst s = map (\<lambda>k. now - hours * HOUR + int k * HOUR) [0..<nat hours + 1] \<and>
              sorted_wrt (<) (map fst s) \<and>
              (\<forall>i<nat hours. fst (s ! Suc i) - fst (s ! i) = HOUR) \<and>
              fst (last s) = now"
  have P: "?P (frame ?dr c)" for c
    by (rule hourly_index [OF assms]) (rule map_fst_frame)
  have sel: "temperature ?wd = frame ?dr cT" "precipitation ?wd = frame ?dr cP"
    "wind ?wd = frame ?dr cW" "sunshine ?wd = frame ?dr cS" "cloudiness ?wd = frame ?dr cC"
    by simp_all
  have all: "\<forall>s \<in> {temperature ?wd, precipitation ?wd, wind ?wd, sunshine ?wd, cloudiness ?wd}. ?P s"
    unfolding sel using P by blast
  show ?thesis
    unfolding if_P [OF True] by (rule exI [of _ ?wd], rule conjI [OF wd], rule all)
qed

text \<open>
  C7 as stated fails for a large duration. At the call time 2026-11-04 21:00:00 a
  duration of \<open>10\<^sup>8\<close> hours (about 11408 years) puts the start of the range before year 1:
  the subtraction \<^verbatim>\<open>end_date - timedelta(hours=hours)\<close> raises \<open>OverflowError\<close> and no
  series is returned.
\<close>

theorem generate_weather_data_overflow_counterexample:
  "generate_weather_data ''00954'' 100000000 1793826000000000 example_draws = Inl OverflowError"
  by (simp add: generate_weather_data_eq datetime_ok_def HOUR_def)

text \<open>
  C8. Two calls that differ only in the station id (same duration, same call time, same
  random draws) have the same outcome.
\<close>

theorem station_id_not_used:
  "generate_weather_data sid1 hours now rnd = generate_weather_data sid2 hours now rnd"
  by (simp add: generate_weather_data_def)


text \<open>
  At the call time 2026-11-04 21:00:00, a duration of 0 gives single-point series at
  the call time, and a duration of 2 gives the index 19:00, 20:00, 21:00.
\<close>

theorem generate_weather_data_series_witness:
  "(0::int) \<le> 0 \<and> (0::int) \<le> 2
   \<and> timestamp_ok 1793826000000000 \<and> timestamp_ok (1793826000000000 - 2 * HOUR)
   \<and> (\<exists>wd. generate_weather_data ''00954'' 0 1793826000000000 example_draws = Inr wd \<and>
         map (map fst) [temperature wd, precipitation wd, wind wd, sunshine wd, cloudiness wd]
           = replicate 5 [1793826000000000])
   \<and> (\<exists>wd. generate_weather_data ''00954'' 2 1793826000000000 example_draws = Inr wd \<and>
         map (map fst) [temperature wd, precipitation wd, wind wd, sunshine wd, cloudiness wd]
           = replicate 5 [1793818800000000, 1793822400000000, 1793826000000000])"
proof -
  have ok: "timestamp_ok 1793826000000000" "timestamp_ok (1793826000000000 - 2 * HOUR)"
    "timestamp_ok (1793826000000000 - 0 * HOUR)"
    by (simp_all add: timestamp_ok_def HOUR_def)
  have u: "[0..<nat 2 + 1] = [0, 1, 2]" "[0..<nat 0 + 1] = [0]"
    by (simp_all add: upt_rec)
  from generate_weather_data_series [of 0 1793826000000000 "''00954''" example_draws] ok
  have a: "\<exists>wd. generate_weather_data ''00954'' 0 1793826000000000 example_draws = Inr wd \<and>
         map (map fst) [temperature wd, precipitation wd, wind wd, sunshine wd, cloudiness wd]
           = replicate 5 [1793826000000000]"
    unfolding u by (auto simp: HOUR_def numeral_eq_Suc)
  from generate_weather_data_series [of 2 1793826000000000 "''00954''" example_draws] ok
  have b: "\<exists>wd. generate_weather_data ''00954'' 2 1793826000000000 example_draws = Inr wd \<and>
         map (map fst) [temperature wd, precipitation wd, wind wd, sunshine wd, cloudiness wd]
           = replicate 5 [1793818800000000, 1793822400000000, 1793826000000000]"
    unfolding u by (auto simp: HOUR_def numeral_eq_Suc)
  from a b ok show ?thesis by simp
qed

subsection \<open>Generated sunshine\<close>

text \<open>
  Generated data is structurally valid, and its sunshine column is \<open>60 (1 - b)\<close> for the
  Beta draw \<open>b\<close> of the row when the row's hour of day is between 6 and 20, and 0 otherwise.
\<close>

lemma generated_sunshine:
  assumes "generate_weather_data sid hours now rnd = Inr wd"
  shows "structurally_valid wd \<and>
         sunshine wd = frame (map fst (sunshine wd))
           (\<lambda>i. if 6 \<le> hour (fst (sunshine wd ! i)) \<and> hour (fst (sunshine wd ! i)) \<le> 20
                then 60 * (1 - cloud_factor rnd i) else 0)"
proof -
  let ?dr = "pd_date_range (now - hours * HOUR) now"
  let ?cS = "\<lambda>i. np_where (real_of_int (hour (?dr ! i)) \<ge> 6 \<and> real_of_int (hour (?dr ! i)) \<le> 20)
                       (60 * (1 - cloud_factor rnd i)) 0"
  from generate_weather_data_InrD [OF assms]
  have ok: "timestamp_ok (now - hours * HOUR)" "timestamp_ok now" by simp_all
  from generate_weather_data_Inr [OF ok, of sid rnd] assms
  obtain cT cP cW cC where wd:
    "wd = \<lparr>temperature = frame ?dr cT, precipitation = frame ?dr cP, wind = frame ?dr cW,
            sunshine = frame ?dr ?cS, cloudiness = frame ?dr cC\<rparr>"
    by auto
  have v: "structurally_valid wd"
    by (simp add: wd structurally_valid_def map_fst_frame distinct_pd_date_range)
  have s: "sunshine wd = frame ?dr ?cS" by (simp add: wd)
  have "frame ?dr ?cS = frame ?dr
           (\<lambda>i. if 6 \<le> hour (fst (frame ?dr ?cS ! i)) \<and> hour (fst (frame ?dr ?cS ! i)) \<le> 20
                then 60 * (1 - cloud_factor rnd i) else 0)"
    by (simp add: frame_def np_where_def)
  then show ?thesis using v unfolding s map_fst_frame by simp
qed

lemma spec_sun_score_range:
  "0 \<le> S \<Longrightarrow> S \<le> 60 \<Longrightarrow> 25 \<le> spec_sun_score S \<and> spec_sun_score S \<le> 100"
  by (simp add: spec_sun_score_def)

text \<open>
  C10. When every Beta draw lies in \<open>[0, 1]\<close>, every sunshine value of generated data
  lies in \<open>[0, 60]\<close> (it is \<open>60 (1 - b)\<close> in daylight hours and 0 otherwise), and every
  \<^verbatim>\<open>sun_score\<close> that \<open>calculate_ssi\<close> computes from generated data is present and lies in
  \<open>[25, 100]\<close>.
\<close>

theorem generated_sunshine_range:
  assumes "\<forall>i. 0 \<le> cloud_factor rnd i \<and> cloud_factor rnd i \<le> 1"
    and "generate_weather_data sid hours now rnd = Inr wd"
  shows "map snd (sunshine wd) =
           map (\<lambda>i. if 6 \<le> hour (fst (sunshine wd ! i)) \<and> hour (fst (sunshine wd ! i)) \<le> 20
                     then 60 * (1 - cloud_factor rnd i) else 0)
             [0..<length (sunshine wd)]
         \<and> (\<forall>(t, s) \<in> set (sunshine wd). 0 \<le> s \<and> s \<le> 60)
         \<and> length (calculate_ssi wd) = length (sunshine wd)
         \<and> (\<forall>r \<in> set (calculate_ssi wd). in_range 25 100 (sun_score r))"
proof -
  let ?c = "\<lambda>i. if 6 \<le> hour (fst (sunshine wd ! i)) \<and> hour (fst (sunshine wd ! i)) \<le> 20
                then 60 * (1 - cloud_factor rnd i) else 0"
  from generated_sunshine [OF assms(2)]
  have v: "structurally_valid wd" and s: "sunshine wd = frame (map fst (sunshine wd)) ?c"
    by simp_all
  have c: "0 \<le> ?c i \<and> ?c i \<le> 60" for i using assms(1) by simp
  have "map snd (sunshine wd) = map snd (frame (map fst (sunshine wd)) ?c)"
    using s by simp
  then have m: "map snd (sunshine wd) = map ?c [0..<length (sunshine wd)]"
    by (simp only: map_snd_frame length_map)
  have nth: "snd (sunshine wd ! i) = ?c i" if "i < length (sunshine wd)" for i
  proof -
    have "snd (sunshine wd ! i) = map snd (sunshine wd) ! i" using that by simp
    also have "\<dots> = ?c i" unfolding m using that by simp
    finally show ?thesis .
  qed
  have r: "\<forall>(t, s) \<in> set (sunshine wd). 0 \<le> s \<and> s \<le> 60"
  proof (clarify)
    fix t s' assume "(t, s') \<in> set (sunshine wd)"
    then obtain i where "i < length (sunshine wd)" and "sunshine wd ! i = (t, s')"
      by (auto simp: in_set_conv_nth)
    then have "s' = ?c i" using nth [of i] by simp
    then show "0 \<le> s' \<and> s' \<le> 60" using c [of i] by simp
  qed
  have len: "length (sunshine wd) = length (temperature wd)"
    using v by (metis structurally_valid_def length_map)
  have l: "length (calculate_ssi wd) = length (sunshine wd)"
    by (simp add: calculate_ssi_valid [OF v] len)
  have "\<forall>r \<in> set (calculate_ssi wd). in_range 25 100 (sun_score r)"
  proof
    fix r assume "r \<in> set (calculate_ssi wd)"
    then obtain i where i: "i < length (temperature wd)" and r: "r = scores_of (row_at wd i)"
      by (auto simp: calculate_ssi_valid [OF v])
    have "sun_score r = Some (spec_sun_score (snd (sunshine wd ! i)))"
      unfolding r scores_of_fields by (simp add: row_at_def)
    moreover have "0 \<le> snd (sunshine wd ! i) \<and> snd (sunshine wd ! i) \<le> 60"
      using nth [of i] c [of i] i len by simp
    ultimately show "in_range 25 100 (sun_score r)"
      using spec_sun_score_range by (simp add: in_range_def)
  qed
  with m r l show ?thesis by blast
qed


text \<open>
  Three hours up to 2026-11-04 21:00:00 with a cloud factor of \<open>1/4\<close>: 45 minutes of
  sunshine at 19:00 and 20:00, none at 21:00.
\<close>

theorem generated_sunshine_range_witness:
  "(\<forall>i. 0 \<le> cloud_factor example_draws i \<and> cloud_factor example_draws i \<le> 1)
   \<and> (\<exists>wd. generate_weather_data ''00954'' 2 1793826000000000 example_draws = Inr wd
        \<and> sunshine wd = [(1793818800000000, 45), (1793822400000000, 45), (1793826000000000, 0)]
        \<and> list_all (\<lambda>(t, s). 0 \<le> s \<and> s \<le> 60) (sunshine wd)
        \<and> length (calculate_ssi wd) = 3
        \<and> list_all (\<lambda>r. in_range 25 100 (sun_score r)) (calculate_ssi wd))"
proof -
  have cf: "\<forall>i. 0 \<le> cloud_factor example_draws i \<and> cloud_factor example_draws i \<le> 1"
    by (simp add: example_draws_def)
  have ok: "timestamp_ok (1793826000000000 - 2 * HOUR)" "timestamp_ok 1793826000000000"
    by (simp_all add: timestamp_ok_def HOUR_def)
  have u: "[0..<nat (2 + 1)] = [0, 1, 2]" by (simp add: upt_rec)
  have dr: "pd_date_range (1793826000000000 - 2 * HOUR) 1793826000000000
              = [1793818800000000, 1793822400000000, 1793826000000000]"
    unfolding pd_date_range_hours u by (simp add: HOUR_def)
  from generate_weather_data_Inr [OF ok, of "''00954''" example_draws]
  obtain wd where wd: "generate_weather_data ''00954'' 2 1793826000000000 example_draws = Inr wd"
    and sun: "sunshine wd = frame [1793818800000000, 1793822400000000, 1793826000000000]
       (\<lambda>i. np_where
           (real_of_int (hour ([1793818800000000, 1793822400000000, 1793826000000000] ! i)) \<ge> 6 \<and>
            real_of_int (hour ([1793818800000000, 1793822400000000, 1793826000000000] ! i)) \<le> 20)
           (60 * (1 - cloud_factor example_draws i)) 0)"
    unfolding dr by force
  have u3: "[0..<length [1793818800000000, 1793822400000000, 1793826000000000 :: int]] = [0, 1, 2]"
    by (simp add: upt_rec)
  have s: "sunshine wd = [(1793818800000000, 45), (1793822400000000, 45), (1793826000000000, 0)]"
    unfolding sun frame_def u3
    by (simp add: np_where_def hour_def HOUR_def example_draws_def)
  from generated_sunshine_range [OF cf wd]
  have r: "\<forall>(t, s) \<in> set (sunshine wd). 0 \<le> s \<and> s \<le> 60"
    "length (calculate_ssi wd) = length (sunshine wd)"
    "\<forall>r \<in> set (calculate_ssi wd). in_range 25 100 (sun_score r)"
    by blast+
  have a: "list_all (\<lambda>(t, s). 0 \<le> s \<and> s \<le> 60) (sunshine wd)"
    unfolding list_all_iff by (rule r(1))
  have b: "list_all (\<lambda>r. in_range 25 100 (sun_score r)) (calculate_ssi wd)"
    unfolding list_all_iff by (rule r(3))
  have c: "length (calculate_ssi wd) = 3" unfolding r(2) s by simp
  from cf wd s a b c show ?thesis by blast
qed

end
